theory Spec2Isabelle
  imports Main
begin

section \<open>JavaScript values\<close>

text \<open>
  The values a settings object or a parsed front-matter can hold. A number is modelled as
  an integer (heights are pixel counts, and no property below depends on fractions); an
  object is the map from its own property names to their values, and an array is the
  object of its indices.
\<close>

datatype jsval = Undefined | Null | Bool bool | Num int | Str string | Obj "string \<rightharpoonup> jsval"

type_synonym obj = "string \<rightharpoonup> jsval"

text \<open>Reading a property yields \<^verbatim>\<open>undefined\<close> when the object has no such property.\<close>

definition js_get :: "obj \<Rightarrow> string \<Rightarrow> jsval" where
  "js_get ob k = (case ob k of None \<Rightarrow> Undefined | Some v \<Rightarrow> v)"

text \<open>The operator \<^verbatim>\<open>??\<close> takes its right operand when the left one is nullish.\<close>

definition nullish :: "jsval \<Rightarrow> bool" where
  "nullish v = (v = Undefined \<or> v = Null)"

definition coalesce :: "jsval \<Rightarrow> jsval \<Rightarrow> jsval" where
  "coalesce a b = (if nullish a then b else a)"

text \<open>The condition of \<^verbatim>\<open>c ? x : y\<close> holds when \<^verbatim>\<open>c\<close> is truthy.\<close>

fun truthy :: "jsval \<Rightarrow> bool" where
  "truthy Undefined = False"
| "truthy Null = False"
| "truthy (Bool b) = b"
| "truthy (Num n) = (n \<noteq> 0)"
| "truthy (Str s) = (s \<noteq> [])"
| "truthy (Obj ob) = True"

text \<open>
  What the code can throw or be handed as a rejection: a \<^verbatim>\<open>TypeError\<close> of the language
  itself (a property of \<^verbatim>\<open>null\<close> or \<^verbatim>\<open>undefined\<close> read, a property of a primitive
  written in strict code), the rejection of a file read, and an error of the Markdown
  transformer or the renderer.
\<close>

datatype error = TypeError | ReadError | TransformError


section \<open>Colouring by depth in the mind-map view (MindmapView.applyColor)\<close>

text \<open>The fields of \<^verbatim>\<open>MindMapSettings\<close> that \<^verbatim>\<open>applyColor\<close> reads.\<close>

record MindMapSettings =
  onlyUseDefaultColor :: bool
  defaultColor :: string
  color1 :: string
  color2 :: string
  color3 :: string

text \<open>
  The remainder operator \<^verbatim>\<open>%\<close> on integers: the result has the sign of the dividend.
\<close>

definition rem :: "int \<Rightarrow> int \<Rightarrow> int" where
  "rem a b = sgn a * (\<bar>a\<bar> mod \<bar>b\<bar>)"

text \<open>Reading \<^verbatim>\<open>colors[i]\<close>: \<^verbatim>\<open>undefined\<close> (here \<open>None\<close>) outside the array.\<close>

definition at_index :: "'a list \<Rightarrow> int \<Rightarrow> 'a option" where
  "at_index xs i = (if 0 \<le> i \<and> i < int (length xs) then Some (xs ! nat i) else None)"

text \<open>
  \<^verbatim>\<open>frontmatterColors?.length\<close> is truthy when the list is given and not empty.
  The depth of a node is an integer; the result is the colour, or \<open>None\<close> where
  JavaScript yields \<^verbatim>\<open>undefined\<close>.
\<close>

definition has_length :: "'a list option \<Rightarrow> bool" where
  "has_length xs = (case xs of None \<Rightarrow> False | Some ys \<Rightarrow> ys \<noteq> [])"

definition applyColor :: "MindMapSettings \<Rightarrow> string list option \<Rightarrow> int \<Rightarrow> string option" where
  "applyColor settings frontmatterColors depth =
     (if onlyUseDefaultColor settings then Some (defaultColor settings)
      else
        let colors =
          (case frontmatterColors of
             Some cs \<Rightarrow> if cs \<noteq> [] then cs else [color1 settings, color2 settings, color3 settings]
           | None \<Rightarrow> [color1 settings, color2 settings, color3 settings])
        in
          if has_length frontmatterColors then at_index colors (rem depth (int (length colors)))
          else if depth < int (length colors) then at_index colors depth
          else Some (defaultColor settings))"


section \<open>The settings of a code-block mind-map (SettingsManager)\<close>

text \<open>
  \<^verbatim>\<open>this.settings\<close> holds the three layers \<^verbatim>\<open>global\<close>, \<^verbatim>\<open>file\<close> and \<^verbatim>\<open>codeBlock\<close>;
  the fields carry the names of the values the constructor is given, since \<^verbatim>\<open>file\<close> is
  a reserved word here. \<open>newHeight\<close> is \<open>None\<close> while it is \<^verbatim>\<open>undefined\<close>.
\<close>

record layers =
  globalSettings :: obj
  fileSettings :: obj
  codeBlockSettings :: obj

record SettingsManager =
  newHeight :: "int option"
  settings :: layers

definition DEFAULT_HEIGHT :: int where
  "DEFAULT_HEIGHT = 150"

text \<open>\<^verbatim>\<open>get height()\<close>: \<^verbatim>\<open>this.newHeight ?? this.settings.codeBlock.height ?? this.DEFAULT_HEIGHT\<close>.\<close>

definition height :: "SettingsManager \<Rightarrow> jsval" where
  "height m =
     (case newHeight m of
        Some h \<Rightarrow> Num h
      | None \<Rightarrow> coalesce (js_get (codeBlockSettings (settings m)) ''height'') (Num DEFAULT_HEIGHT))"

text \<open>\<^verbatim>\<open>set height(height)\<close>: the comparison is the strict equality \<^verbatim>\<open>===\<close>.\<close>

definition set_height :: "int \<Rightarrow> SettingsManager \<Rightarrow> SettingsManager" where
  "set_height h m =
     (if Num h = js_get (codeBlockSettings (settings m)) ''height''
      then m\<lparr>newHeight := None\<rparr>
      else m\<lparr>newHeight := Some h\<rparr>)"

text \<open>
  \<^verbatim>\<open>get merged()\<close>: an object spread copies the own properties of its operands from
  left to right, a later one replacing an earlier one of the same name, which is
  \<open>++\<close> on maps; the \<^verbatim>\<open>height\<close> property is written last. The getter assigns
  nothing, so it is a function of the manager.
\<close>

definition merged :: "SettingsManager \<Rightarrow> obj" where
  "merged m =
     (globalSettings (settings m) ++ fileSettings (settings m) ++ codeBlockSettings (settings m))
       (''height'' \<mapsto> height m)"

text \<open>\<^verbatim>\<open>set global(s)\<close> and \<^verbatim>\<open>set file(s)\<close>.\<close>

definition set_global :: "obj \<Rightarrow> SettingsManager \<Rightarrow> SettingsManager" where
  "set_global s m = m\<lparr>settings := (settings m)\<lparr>globalSettings := s\<rparr>\<rparr>"

definition set_file :: "obj \<Rightarrow> SettingsManager \<Rightarrow> SettingsManager" where
  "set_file s m = m\<lparr>settings := (settings m)\<lparr>fileSettings := s\<rparr>\<rparr>"



subsection \<open>Saving the height into the front-matter (SettingsManager.saveHeight)\<close>

record EditorPosition =
  line :: int
  ch :: int

definition EditorLine :: "int \<Rightarrow> EditorPosition" where
  "EditorLine l = \<lparr>line = l, ch = 0\<rparr>"

text \<open>
  What \<^verbatim>\<open>saveHeight\<close> calls outside this repository, over an editor document of type
  \<open>'e\<close>: the section of the code block (\<^verbatim>\<open>lineStart\<close>, \<^verbatim>\<open>lineEnd\<close>), the editor's
  \<^verbatim>\<open>getRange\<close> and \<^verbatim>\<open>replaceRange\<close>, and the front-matter library, whose parser
  returns the \<^verbatim>\<open>data\<close> object and the \<^verbatim>\<open>content\<close> and whose \<^verbatim>\<open>stringify\<close> writes
  them back.
\<close>

record 'e host =
  getSectionInfo :: "'e \<Rightarrow> int \<times> int"
  getRange :: "'e \<Rightarrow> EditorPosition \<Rightarrow> EditorPosition \<Rightarrow> string"
  replaceRange :: "string \<Rightarrow> EditorPosition \<Rightarrow> EditorPosition \<Rightarrow> 'e \<Rightarrow> 'e"
  GrayMatter :: "string \<Rightarrow> obj \<times> string"
  stringify :: "string \<Rightarrow> obj \<Rightarrow> string"

text \<open>
  The state is the manager and the editor's document; the result says whether the call
  threw. \<^verbatim>\<open>md.data.markmap ??= {}\<close> stores an empty object when the property is
  nullish. \<^verbatim>\<open>md.data.markmap.height = this.height\<close> writes a property of that value:
  of an object it is stored, of a boolean, a number or a string it is a
  \<^verbatim>\<open>TypeError\<close>, a class body being strict code, and nothing has been written to the
  editor by then.
\<close>

definition saveHeight ::
  "'e host \<Rightarrow> SettingsManager \<times> 'e \<Rightarrow> error option \<times> SettingsManager \<times> 'e" where
  "saveHeight H st =
     (case st of (m, editor) \<Rightarrow>
        (case newHeight m of
           None \<Rightarrow> (None, m, editor)
         | Some _ \<Rightarrow>
             (case getSectionInfo H editor of (sectionStart, sectionEnd) \<Rightarrow>
                let lineStart = EditorLine (sectionStart + 1);
                    lineEnd = EditorLine sectionEnd
                in (case GrayMatter H (getRange H editor lineStart lineEnd) of (data, content) \<Rightarrow>
                      let data1 = (if nullish (js_get data ''markmap'')
                                   then data(''markmap'' \<mapsto> Obj Map.empty) else data)
                      in (case js_get data1 ''markmap'' of
                            Obj markmap \<Rightarrow>
                              (None,
                               m\<lparr>newHeight := None\<rparr>,
                               replaceRange H
                                 (stringify H content
                                    (data1(''markmap'' \<mapsto> Obj (markmap(''height'' \<mapsto> height m)))))
                                 lineStart lineEnd editor)
                          | _ \<Rightarrow> (Some TypeError, m, editor))))))"


subsection \<open>The code-block renderer (CodeBlockRenderer)\<close>

text \<open>
  The variables of the renderer's closure that \<^verbatim>\<open>render\<close> and the two setters use:
  the root node, the settings manager (the variable \<^verbatim>\<open>settings\<close>), the data handed to the
  markmap by \<^verbatim>\<open>setData\<close>, call by call, and the class list of the container's parent
  element, \<open>None\<close> when the container has no parent.
\<close>

record ('n, 'o) renderer =
  rootNode :: 'n
  manager :: SettingsManager
  setData_calls :: "('n \<times> 'o) list"
  parentClassList :: "string set option"

text \<open>
  \<^verbatim>\<open>getOptions\<close> (of the rendering module) and the class name \<^verbatim>\<open>cssClasses.highlight\<close>
  are arguments. Reading \<^verbatim>\<open>classList\<close> of a missing parent throws, after the call of
  \<^verbatim>\<open>setData\<close>.
\<close>

definition render ::
  "(obj \<Rightarrow> 'o) \<Rightarrow> string \<Rightarrow> ('n, 'o) renderer \<Rightarrow> error option \<times> ('n, 'o) renderer" where
  "render getOptions highlight r =
     (let markmapOptions = getOptions (merged (manager r));
          r1 = r\<lparr>setData_calls := setData_calls r @ [(rootNode r, markmapOptions)]\<rparr>
      in (case parentClassList r1 of
            None \<Rightarrow> (Some TypeError, r1)
          | Some classList \<Rightarrow>
              (None,
               r1\<lparr>parentClassList :=
                    Some (if truthy (js_get (merged (manager r1)) ''highlight'')
                          then insert highlight classList
                          else classList - {highlight})\<rparr>)))"

definition updateGlobalSettings ::
  "(obj \<Rightarrow> 'o) \<Rightarrow> string \<Rightarrow> obj \<Rightarrow> ('n, 'o) renderer \<Rightarrow> error option \<times> ('n, 'o) renderer" where
  "updateGlobalSettings getOptions highlight g r =
     render getOptions highlight (r\<lparr>manager := set_global g (manager r)\<rparr>)"

definition updateFileSettings ::
  "(obj \<Rightarrow> 'o) \<Rightarrow> string \<Rightarrow> obj \<Rightarrow> ('n, 'o) renderer \<Rightarrow> error option \<times> ('n, 'o) renderer" where
  "updateFileSettings getOptions highlight f r =
     render getOptions highlight (r\<lparr>manager := set_file f (manager r)\<rparr>)"

text \<open>
  The constructor: \<^verbatim>\<open>readMarkdown\<close> (an argument) parses the code block's Markdown
  into the root node and the code block's settings, once; the manager starts with no
  pending height; the first \<^verbatim>\<open>render\<close> follows. The resize handle set up by
  \<^verbatim>\<open>SizeManager\<close> only reads the manager here.
\<close>

definition CodeBlockRenderer ::
  "(string \<Rightarrow> 'n \<times> obj) \<Rightarrow> (obj \<Rightarrow> 'o) \<Rightarrow> string \<Rightarrow> string \<Rightarrow> string set option \<Rightarrow> obj \<Rightarrow> obj
   \<Rightarrow> error option \<times> ('n, 'o) renderer" where
  "CodeBlockRenderer readMarkdown getOptions highlight markdown parent g f =
     (case readMarkdown markdown of (root, c) \<Rightarrow>
        render getOptions highlight
          \<lparr>rootNode = root,
           manager = \<lparr>newHeight = None,
                      settings = \<lparr>globalSettings = g, fileSettings = f, codeBlockSettings = c\<rparr>\<rparr>,
           setData_calls = [],
           parentClassList = parent\<rparr>)"

text \<open>
  The functions the renderer returns, called one after the other; a call that throws
  leaves the closure as it was at the throw.
\<close>

datatype call = Render | UpdateGlobalSettings obj | UpdateFileSettings obj

fun perform :: "(obj \<Rightarrow> 'o) \<Rightarrow> string \<Rightarrow> call \<Rightarrow> ('n, 'o) renderer \<Rightarrow> ('n, 'o) renderer" where
  "perform getOptions highlight Render r = snd (render getOptions highlight r)"
| "perform getOptions highlight (UpdateGlobalSettings s) r =
     snd (updateGlobalSettings getOptions highlight s r)"
| "perform getOptions highlight (UpdateFileSettings s) r =
     snd (updateFileSettings getOptions highlight s r)"

fun perform_all ::
  "(obj \<Rightarrow> 'o) \<Rightarrow> string \<Rightarrow> call list \<Rightarrow> ('n, 'o) renderer \<Rightarrow> ('n, 'o) renderer" where
  "perform_all getOptions highlight [] r = r"
| "perform_all getOptions highlight (c # cs) r =
     perform_all getOptions highlight cs (perform getOptions highlight c r)"


section \<open>Checking the active leaf (MindmapView.checkAndUpdate)\<close>

text \<open>
  The file of a view (\<^verbatim>\<open>path\<close>, \<^verbatim>\<open>basename\<close>) and a view: \<^verbatim>\<open>getViewType()\<close> and
  its \<^verbatim>\<open>file\<close> property, \<open>None\<close> when the view shows no file.
\<close>

record TFile =
  path :: string
  basename :: string

record View =
  viewType :: string
  view_file :: "TFile option"

text \<open>
  The application around the view, as one handler invocation sees it. A leaf is a
  reference, here a number; \<^verbatim>\<open>activeLeaf\<close> may be \<^verbatim>\<open>null\<close>; \<open>leaf_view\<close> is the
  view of a leaf, \<open>adapter_read\<close> is \<^verbatim>\<open>vault.adapter.read\<close> (\<open>None\<close>: the read is
  rejected), and \<open>transformMarkdown\<close> is the outcome of \<^verbatim>\<open>transformMarkdown\<close> and of the
  rendering that follows it in \<^verbatim>\<open>update\<close>: \<open>Some e\<close> when one of them throws \<open>e\<close>.
  \<^verbatim>\<open>MD_VIEW_TYPE\<close> is a constant of the plugin.
\<close>

record app =
  MD_VIEW_TYPE :: string
  activeLeaf :: "nat option"
  leaf_view :: "nat \<rightharpoonup> View"
  adapter_read :: "string \<rightharpoonup> string"
  transformMarkdown :: "string \<Rightarrow> error option"

text \<open>
  The fields of the view that the check reads and writes, the number of calls of
  \<^verbatim>\<open>update\<close>, the contents rendered, and what was written to the console.
\<close>

record MindmapView =
  filePath :: string
  fileName :: string
  currentMd :: "string option"
  isLeafPinned :: bool
  linkedLeaf :: "nat option"
  update_calls :: nat
  rendered :: "string list"
  console :: "error list"



text \<open>
  \<^verbatim>\<open>readMarkDown\<close> catches a rejected read, logs it and returns \<^verbatim>\<open>undefined\<close>
  (\<open>None\<close>).
\<close>

definition readMarkDown :: "app \<Rightarrow> MindmapView \<Rightarrow> bool option \<times> MindmapView" where
  "readMarkDown a v =
     (case adapter_read a (filePath v) of
        Some md \<Rightarrow> (Some (currentMd v \<noteq> Some md), v\<lparr>currentMd := Some md\<rparr>)
      | None \<Rightarrow> (None, v\<lparr>console := console v @ [ReadError]\<rparr>))"










section \<open>The listeners of the mind-map view (setListenersUp, onClose)\<close>

text \<open>
  The workspace and the view's leaf are event emitters of the host: \<^verbatim>\<open>on\<close> adds a
  listener to the emitter it is called on and returns a new reference to it, and
  \<^verbatim>\<open>offref\<close> removes the listener with the reference it is given from the emitter it
  is called on. A reference is a number, \<open>next_ref\<close> the next one handed out; an
  emitter is the list of its listeners, each with the name of its event.
  \<open>listeners\<close> is the view's array.
\<close>

record wiring =
  workspace :: "(nat \<times> string) list"
  leaf :: "(nat \<times> string) list"
  next_ref :: nat
  listeners :: "nat list"

definition workspace_on :: "string \<Rightarrow> wiring \<Rightarrow> nat \<times> wiring" where
  "workspace_on name w =
     (next_ref w, w\<lparr>workspace := workspace w @ [(next_ref w, name)], next_ref := Suc (next_ref w)\<rparr>)"

definition leaf_on :: "string \<Rightarrow> wiring \<Rightarrow> nat \<times> wiring" where
  "leaf_on name w =
     (next_ref w, w\<lparr>leaf := leaf w @ [(next_ref w, name)], next_ref := Suc (next_ref w)\<rparr>)"

definition workspace_offref :: "nat \<Rightarrow> wiring \<Rightarrow> wiring" where
  "workspace_offref ref w = w\<lparr>workspace := filter (\<lambda>l. fst l \<noteq> ref) (workspace w)\<rparr>"

fun workspace_on_each :: "string list \<Rightarrow> wiring \<Rightarrow> nat list \<times> wiring" where
  "workspace_on_each [] w = ([], w)"
| "workspace_on_each (name # names) w =
     (case workspace_on name w of (ref, w1) \<Rightarrow>
        (case workspace_on_each names w1 of (refs, w2) \<Rightarrow> (ref # refs, w2)))"

text \<open>The events of the ten calls of \<^verbatim>\<open>this.workspace.on\<close>, in the array's order.\<close>

definition workspace_events :: "string list" where
  "workspace_events =
     [''quick-preview'', ''resize'', ''active-leaf-change'', ''layout-change'', ''css-change'',
      ''file-menu'', ''editor-menu'', ''editor-paste'', ''editor-drop'', ''codemirror'']"

text \<open>The array's last element is the reference returned by \<^verbatim>\<open>this.leaf.on\<close>.\<close>

definition setListenersUp :: "wiring \<Rightarrow> wiring" where
  "setListenersUp w =
     (case workspace_on_each workspace_events w of (refs, w1) \<Rightarrow>
        (case leaf_on ''group-change'' w1 of (ref, w2) \<Rightarrow>
           w2\<lparr>listeners := refs @ [ref]\<rparr>))"

text \<open>\<^verbatim>\<open>this.listeners.forEach((listener) => this.workspace.offref(listener))\<close>.\<close>

fun forEach_offref :: "nat list \<Rightarrow> wiring \<Rightarrow> wiring" where
  "forEach_offref [] w = w"
| "forEach_offref (listener # rest) w = forEach_offref rest (workspace_offref listener w)"

definition onClose :: "wiring \<Rightarrow> wiring" where
  "onClose w = forEach_offref (listeners w) w"

definition fresh_wiring :: wiring where
  "fresh_wiring = \<lparr>workspace = [], leaf = [], next_ref = 0, listeners = []\<rparr>"


section \<open>Debounced updates on quick-preview (the first listener of setListenersUp)\<close>

text \<open>
  Time is counted in milliseconds. The window's agenda holds what will run later, each
  entry with its time: \<open>Fire i content\<close> is the callback of the timer \<open>i\<close> set by
  \<^verbatim>\<open>setTimeout\<close>, and \<open>Settle\<close> is the continuation of a callback after
  \<^verbatim>\<open>await this.update(content)\<close>, which assigns \<^verbatim>\<open>lastTimeout = undefined\<close>.
\<close>

datatype task = Fire nat string | Settle

text \<open>
  What the handler cannot see: how long the file read inside \<^verbatim>\<open>update\<close> takes, and
  for which contents \<^verbatim>\<open>update\<close> is rejected.
\<close>

record timing =
  read_latency :: nat
  update_fails :: "string \<Rightarrow> bool"

text \<open>
  The closure variable \<^verbatim>\<open>lastTimeout\<close> (\<open>None\<close>: \<^verbatim>\<open>undefined\<close>), the agenda, the
  next timer id (ids are positive), and the calls of \<^verbatim>\<open>update\<close> made so far, each
  with its time and its argument.
\<close>

record debounce =
  lastTimeout :: "nat option"
  agenda :: "(nat \<times> task) list"
  nextTimer :: nat
  updates :: "(nat \<times> string) list"

fun is_timer :: "nat \<Rightarrow> nat \<times> task \<Rightarrow> bool" where
  "is_timer i (t, Fire j content) = (i = j)"
| "is_timer i (t, Settle) = False"

text \<open>\<^verbatim>\<open>clearTimeout\<close> removes a timer that has not fired and does nothing otherwise.\<close>

definition clearTimeout :: "nat \<Rightarrow> debounce \<Rightarrow> debounce" where
  "clearTimeout i s = s\<lparr>agenda := filter (\<lambda>e. \<not> is_timer i e) (agenda s)\<rparr>"

text \<open>The listener: \<^verbatim>\<open>if (lastTimeout)\<close> holds for a timer id other than 0.\<close>

definition quick_preview :: "nat \<Rightarrow> string \<Rightarrow> debounce \<Rightarrow> debounce" where
  "quick_preview now content s =
     (let s1 = (case lastTimeout s of
                  None \<Rightarrow> s
                | Some i \<Rightarrow> if i = 0 then s else clearTimeout i s)
      in s1\<lparr>agenda := agenda s1 @ [(now + 300, Fire (nextTimer s1) content)],
            lastTimeout := Some (nextTimer s1),
            nextTimer := Suc (nextTimer s1)\<rparr>)"

text \<open>
  A timer's callback calls \<^verbatim>\<open>update(content)\<close>. With a non-empty string \<^verbatim>\<open>update\<close>
  awaits nothing but its own synchronous steps, so the assignment
  \<^verbatim>\<open>lastTimeout = undefined\<close> runs before any other event or timer. With the empty
  string \<^verbatim>\<open>update\<close> awaits the file read of \<^verbatim>\<open>readMarkDown\<close>, and the assignment
  runs when the read has settled. When \<^verbatim>\<open>update\<close> is rejected the assignment does
  not run.
\<close>

fun run_task :: "timing \<Rightarrow> nat \<times> task \<Rightarrow> debounce \<Rightarrow> debounce" where
  "run_task T (now, Fire i content) s =
     (let s1 = s\<lparr>updates := updates s @ [(now, content)]\<rparr>
      in if update_fails T content then s1
         else if content \<noteq> [] then s1\<lparr>lastTimeout := None\<rparr>
         else s1\<lparr>agenda := agenda s1 @ [(now + read_latency T, Settle)]\<rparr>)"
| "run_task T (now, Settle) s = s\<lparr>lastTimeout := None\<rparr>"

text \<open>The entry of the agenda that runs next: the first one among those with the least time.\<close>

fun earliest :: "(nat \<times> 'a) list \<Rightarrow> (nat \<times> 'a) option" where
  "earliest [] = None"
| "earliest (x # xs) =
     (case earliest xs of
        None \<Rightarrow> Some x
      | Some y \<Rightarrow> if fst y < fst x then Some y else Some x)"

text \<open>A timer's callback leaves at most one continuation behind: the agenda shrinks.\<close>

fun weight :: "(nat \<times> task) list \<Rightarrow> nat" where
  "weight [] = 0"
| "weight ((t, Fire i content) # xs) = 2 + weight xs"
| "weight ((t, Settle) # xs) = 1 + weight xs"

text \<open>
  The event loop up to a time limit (\<open>None\<close>: until the agenda is empty): it runs the
  entries of the agenda in the order of their times.
\<close>

function advance :: "timing \<Rightarrow> nat option \<Rightarrow> debounce \<Rightarrow> debounce" where
  "advance T limit s =
     (case earliest (agenda s) of
        None \<Rightarrow> s
      | Some x \<Rightarrow>
          if (case limit of None \<Rightarrow> True | Some l \<Rightarrow> fst x \<le> l)
          then advance T limit (run_task T x (s\<lparr>agenda := remove1 x (agenda s)\<rparr>))
          else s)"
  by pat_completeness auto
termination
proof (relation "measure (\<lambda>(T, limit, s). weight (agenda s))")
  show "wf (measure (\<lambda>(T, limit, s). weight (agenda s)))"
    by simp
next
  fix T :: timing and limit :: "nat option" and s :: debounce and x :: "nat \<times> task"
  assume next_task: "earliest (agenda s) = Some x"
  have listed: "y \<in> set xs" if "earliest xs = Some y" for xs :: "(nat \<times> task) list" and y
    using that by (induction xs arbitrary: y) (auto split: option.splits if_splits)
  have appended: "weight (xs @ ys) = weight xs + weight ys" for xs ys
    by (induction xs rule: weight.induct) auto
  have fired: "weight (remove1 (t, Fire i c) xs) + 2 = weight xs"
    if "(t, Fire i c) \<in> set xs" for t i c xs
    using that by (induction xs rule: weight.induct) auto
  have settled: "weight (remove1 (t, Settle) xs) + 1 = weight xs"
    if "(t, Settle) \<in> set xs" for t xs
    using that by (induction xs rule: weight.induct) auto
  from next_task have mem: "x \<in> set (agenda s)"
    by (rule listed)
  obtain t k where x: "x = (t, k)"
    by (cases x)
  have "weight (agenda (run_task T x (s\<lparr>agenda := remove1 x (agenda s)\<rparr>))) < weight (agenda s)"
  proof (cases k)
    case (Fire i c)
    with x mem have "weight (remove1 x (agenda s)) + 2 = weight (agenda s)"
      using fired [of t i c "agenda s"] by simp
    with x Fire show ?thesis
      by (auto simp: Let_def appended)
  next
    case Settle
    with x mem have "weight (remove1 x (agenda s)) + 1 = weight (agenda s)"
      using settled [of t "agenda s"] by simp
    with x Settle show ?thesis
      by simp
  qed
  then show "((T, limit, run_task T x (s\<lparr>agenda := remove1 x (agenda s)\<rparr>)), T, limit, s)
      \<in> measure (\<lambda>(T, limit, s). weight (agenda s))"
    by simp
qed

declare advance.simps [simp del]

text \<open>
  A sequence of quick-preview events, each with its time and its content, in the order
  of their times: what is due before an event runs first, and the agenda is run to its
  end after the last event.
\<close>

fun run :: "timing \<Rightarrow> (nat \<times> string) list \<Rightarrow> debounce \<Rightarrow> debounce" where
  "run T [] s = advance T None s"
| "run T ((now, content) # events) s =
     run T events (quick_preview now content (advance T (Some now) s))"

definition initial :: debounce where
  "initial = \<lparr>lastTimeout = None, agenda = [], nextTimer = 1, updates = []\<rparr>"

text \<open>A burst: each event comes less than 300 ms after the one before it.\<close>

fun burst :: "(nat \<times> string) list \<Rightarrow> bool" where
  "burst [] = True"
| "burst [e] = True"
| "burst (e # e' # es) = (fst e \<le> fst e' \<and> fst e' < fst e + 300 \<and> burst (e' # es))"

definition never :: "string \<Rightarrow> bool" where
  "never c = False"


section \<open>The htmlescape transform plugin (markmap-plugins/html-escape.ts)\<close>

text \<open>
  \<^verbatim>\<open>String.prototype.replace\<close> with a string pattern replaces the first occurrence of
  the pattern only. Both patterns of the plugin are one character long, and neither
  replacement text holds a \<^verbatim>\<open>$\<close>, so the replacement is inserted as it is.
\<close>

fun replace :: "char \<Rightarrow> string \<Rightarrow> string \<Rightarrow> string" where
  "replace c r [] = []"
| "replace c r (x # xs) = (if x = c then r @ xs else x # replace c r xs)"

text \<open>
  \<^verbatim>\<open>TokenWithChildren\<close>: a token of the Markdown parser. \<open>content\<close> and \<open>children\<close>
  are optional (\<open>None\<close> is \<^verbatim>\<open>undefined\<close>); \<open>other\<close> stands for the remaining fields
  of the parser's token, which \<^verbatim>\<open>escapeAll\<close> never touches.
\<close>

datatype 'a token =
  Token (type: string) (content: "string option") (children: "'a token list option") (other: 'a)

text \<open>
  \<^verbatim>\<open>token.content\<close> is truthy when it is a non-empty string; \<^verbatim>\<open>token.children\<close> is
  truthy when it is an array, the empty one included.
\<close>

fun escapeAll :: "'a token \<Rightarrow> 'a token" where
  "escapeAll (Token ty c kids x) =
     Token ty
       (case c of
          None \<Rightarrow> None
        | Some s \<Rightarrow>
            if ty = ''htmltag'' \<and> s \<noteq> []
            then Some (replace CHR ''>'' ''&gt;'' (replace CHR ''<'' ''&lt;'' s))
            else Some s)
       (case kids of None \<Rightarrow> None | Some ts \<Rightarrow> Some (map escapeAll ts))
       x"

text \<open>\<^verbatim>\<open>ctx.result = ctx.result.map(escapeAll)\<close>: the hook run after \<^verbatim>\<open>md.parse\<close>.\<close>

definition after_parse :: "'a token list \<Rightarrow> 'a token list" where
  "after_parse result = map escapeAll result"

text \<open>
  The claim's words, as a function of their own: walking through the content from the
  left, the first \<^verbatim>\<open><\<close> met becomes \<^verbatim>\<open>&lt;\<close>, the first \<^verbatim>\<open>>\<close> met becomes
  \<^verbatim>\<open>&gt;\<close>, and every other character, later angle brackets included, is kept. The
  flags say whether a \<^verbatim>\<open><\<close> and a \<^verbatim>\<open>>\<close> have been met already.
\<close>

fun first_brackets :: "bool \<Rightarrow> bool \<Rightarrow> string \<Rightarrow> string" where
  "first_brackets l g [] = []"
| "first_brackets l g (x # xs) =
     (if x = CHR ''<'' \<and> \<not> l then ''&lt;'' @ first_brackets True g xs
      else if x = CHR ''>'' \<and> \<not> g then ''&gt;'' @ first_brackets l True xs
      else x # first_brackets l g xs)"

text \<open>A token tree in which some \<^verbatim>\<open>htmltag\<close> token has a non-empty content.\<close>

fun has_htmltag :: "'a token \<Rightarrow> bool" where
  "has_htmltag (Token ty c kids x) =
     ((ty = ''htmltag'' \<and> c \<noteq> None \<and> c \<noteq> Some [])
      \<or> (case kids of None \<Rightarrow> False | Some ts \<Rightarrow> list_ex has_htmltag ts))"


section \<open>Example values\<close>

text \<open>
  A manager whose global settings switch the highlight off, whose file settings switch it
  on, and whose code block has the height 300 in its front-matter.
\<close>

definition example_manager :: "int option \<Rightarrow> SettingsManager" where
  "example_manager pending =
     \<lparr>newHeight = pending,
      settings = \<lparr>globalSettings = [''highlight'' \<mapsto> Bool False, ''coloring'' \<mapsto> Str ''depth''],
                  fileSettings = [''highlight'' \<mapsto> Bool True],
                  codeBlockSettings = [''height'' \<mapsto> Num 300]\<rparr>\<rparr>"

text \<open>
  A host whose document is the text of the code block, whose parser finds the given
  front-matter in any text, and whose \<^verbatim>\<open>stringify\<close> shows a height of 200 before the
  body.
\<close>

definition example_stringify :: "string \<Rightarrow> obj \<Rightarrow> string" where
  "example_stringify body d =
     (case js_get d ''markmap'' of
        Obj mm \<Rightarrow> (if js_get mm ''height'' = Num 200 then ''height: 200; '' @ body else body)
      | _ \<Rightarrow> body)"

definition example_host :: "obj \<Rightarrow> string host" where
  "example_host d =
     \<lparr>getSectionInfo = (\<lambda>ed. (2, 7)),
      getRange = (\<lambda>ed from to. ed),
      replaceRange = (\<lambda>t from to ed. t),
      GrayMatter = (\<lambda>t. (d, t)),
      stringify = example_stringify\<rparr>"

text \<open>The front-matter \<^verbatim>\<open>markmap: true\<close>, and a code block without front-matter.\<close>

definition markmap_true :: obj where
  "markmap_true = [''markmap'' \<mapsto> Bool True]"

definition no_front_matter :: obj where
  "no_front_matter = Map.empty"

text \<open>A front-matter whose \<^verbatim>\<open>markmap\<close> entry is an object with one option.\<close>

definition markmap_options :: obj where
  "markmap_options = [''markmap'' \<mapsto> Obj [''maxWidth'' \<mapsto> Num 400]]"

definition example_renderer :: "(string, obj) renderer" where
  "example_renderer =
     \<lparr>rootNode = ''# root'', manager = example_manager None, setData_calls = [],
      parentClassList = Some {''block-language-markmap''}\<rparr>"

text \<open>
  A renderer whose file settings carry the string \<^verbatim>\<open>no\<close> as \<^verbatim>\<open>highlight\<close>, and whose
  container's parent has no class yet.
\<close>

definition highlight_no :: obj where
  "highlight_no = [''highlight'' \<mapsto> Str ''no'']"

definition highlight_no_renderer :: "(string, obj) renderer" where
  "highlight_no_renderer =
     \<lparr>rootNode = ''# root'',
      manager = \<lparr>newHeight = None,
                 settings = \<lparr>globalSettings = Map.empty, fileSettings = highlight_no,
                             codeBlockSettings = Map.empty\<rparr>\<rparr>,
      setData_calls = [],
      parentClassList = Some {}\<rparr>"

definition example_readMarkdown :: "string \<Rightarrow> string \<times> obj" where
  "example_readMarkdown markdown = (markdown, [''height'' \<mapsto> Num 300])"







section \<open>Properties of the settings manager\<close>

lemma height_set_height: "height (set_height h m) = Num h"
  by (simp add: height_def set_height_def coalesce_def nullish_def)

lemma newHeight_set_height:
  "newHeight (set_height h m) = None \<longleftrightarrow> js_get (codeBlockSettings (settings m)) ''height'' = Num h"
  by (auto simp: set_height_def)

lemma saveHeight_nothing_pending: "newHeight m = None \<Longrightarrow> saveHeight H (m, ed) = (None, m, ed)"
  by (simp add: saveHeight_def)


lemma render_manager: "manager (snd (render G hl r)) = manager r"
  by (simp add: render_def Let_def split: option.splits)

lemma render_rootNode: "rootNode (snd (render G hl r)) = rootNode r"
  by (simp add: render_def Let_def split: option.splits)

lemma render_setData:
  "setData_calls (snd (render G hl r)) = setData_calls r @ [(rootNode r, G (merged (manager r)))]"
  by (simp add: render_def Let_def split: option.splits)

lemma render_classList:
  "parentClassList r = Some cl \<Longrightarrow>
   fst (render G hl r) = None \<and>
   (\<exists>cl'. parentClassList (snd (render G hl r)) = Some cl'
      \<and> (hl \<in> cl' \<longleftrightarrow> truthy (js_get (merged (manager r)) ''highlight''))
      \<and> cl' - {hl} = cl - {hl})"
  by (auto simp: render_def Let_def)

text \<open>
  Claim C1, amended. When a new height \<open>h\<close> is pending and the \<^verbatim>\<open>markmap\<close> entry of
  the code block's front-matter is an object, or is missing or null (then \<open>mm\<close> is the
  empty object), \<^verbatim>\<open>saveHeight\<close> does not throw, replaces the lines of the code block
  between its fences by the front-matter library's text for the unchanged content and
  the data in which \<^verbatim>\<open>markmap.height\<close> is \<open>h\<close> and every other entry is as parsed, and
  clears the pending height. When no height is pending it leaves the manager and the
  editor as they are.
\<close>

theorem saveHeight_rewrites_front_matter:
  assumes "getSectionInfo H ed = (s, e)"
    and "GrayMatter H (getRange H ed (EditorLine (s + 1)) (EditorLine e)) = (data, body)"
    and "js_get data ''markmap'' = Obj mm \<or> (nullish (js_get data ''markmap'') \<and> mm = Map.empty)"
  shows "(newHeight m = Some h \<longrightarrow>
            saveHeight H (m, ed) =
              (None, m\<lparr>newHeight := None\<rparr>,
               replaceRange H
                 (stringify H body (data(''markmap'' \<mapsto> Obj (mm(''height'' \<mapsto> Num h)))))
                 (EditorLine (s + 1)) (EditorLine e) ed))
         \<and> (newHeight m = None \<longrightarrow> saveHeight H (m, ed) = (None, m, ed))"
proof (intro conjI impI)
  assume "newHeight m = None"
  then show "saveHeight H (m, ed) = (None, m, ed)"
    by (rule saveHeight_nothing_pending)
next
  assume pending: "newHeight m = Some h"
  then have h: "height m = Num h"
    by (simp add: height_def)
  from assms(3) show "saveHeight H (m, ed) =
      (None, m\<lparr>newHeight := None\<rparr>,
       replaceRange H
         (stringify H body (data(''markmap'' \<mapsto> Obj (mm(''height'' \<mapsto> Num h)))))
         (EditorLine (s + 1)) (EditorLine e) ed)"
  proof
    assume "js_get data ''markmap'' = Obj mm"
    with pending h assms(1,2) show ?thesis
      by (simp add: saveHeight_def nullish_def)
  next
    assume "nullish (js_get data ''markmap'') \<and> mm = Map.empty"
    with pending h assms(1,2) show ?thesis
      by (simp add: saveHeight_def js_get_def)
  qed
qed

theorem saveHeight_rewrites_front_matter_witness:
  "saveHeight (example_host no_front_matter) (example_manager (Some 200), ''# a'')
     = (None, example_manager None, ''height: 200; # a'')
   \<and> saveHeight (example_host markmap_options) (example_manager (Some 200), ''# a'')
     = (None, example_manager None, ''height: 200; # a'')
   \<and> saveHeight (example_host no_front_matter) (example_manager None, ''# a'')
     = (None, example_manager None, ''# a'')"
  using saveHeight_rewrites_front_matter
    [of "example_host no_front_matter" "''# a''" 2 7 no_front_matter "''# a''" Map.empty
      "example_manager (Some 200)" 200]
    saveHeight_rewrites_front_matter
    [of "example_host markmap_options" "''# a''" 2 7 markmap_options "''# a''"
      "[''maxWidth'' \<mapsto> Num 400]" "example_manager (Some 200)" 200]
    saveHeight_rewrites_front_matter
    [of "example_host no_front_matter" "''# a''" 2 7 no_front_matter "''# a''" Map.empty
      "example_manager None" 200]
  by (simp add: example_host_def no_front_matter_def markmap_options_def example_manager_def
      example_stringify_def js_get_def nullish_def)

text \<open>
  Claim C1 as it is stated fails where the front-matter of the code block reads
  \<^verbatim>\<open>markmap: true\<close>: a height of 200 is pending, and \<^verbatim>\<open>saveHeight\<close> throws on the
  assignment of \<^verbatim>\<open>markmap.height\<close>, writes nothing to the editor and leaves the height
  pending.
\<close>

theorem saveHeight_primitive_markmap:
  "newHeight (example_manager (Some 200)) = Some 200
   \<and> saveHeight (example_host markmap_true) (example_manager (Some 200), ''# a'')
     = (Some TypeError, example_manager (Some 200), ''# a'')"
  by (simp add: saveHeight_def example_host_def markmap_true_def example_manager_def
      js_get_def nullish_def)



text \<open>
  Claim C9. After the assignment \<^verbatim>\<open>height = h\<close> the getter returns \<open>h\<close>. The
  assignment clears the pending height exactly when \<open>h\<close> is the height stored in the
  code block's settings, and then \<^verbatim>\<open>saveHeight\<close> changes neither the manager nor the
  editor.
\<close>

theorem set_height_then_get:
  "height (set_height h m) = Num h
   \<and> (newHeight (set_height h m) = None
        \<longleftrightarrow> js_get (codeBlockSettings (settings m)) ''height'' = Num h)
   \<and> (js_get (codeBlockSettings (settings m)) ''height'' = Num h \<longrightarrow>
        saveHeight H (set_height h m, ed) = (None, set_height h m, ed))"
  using height_set_height [of h m] newHeight_set_height [of h m]
    saveHeight_nothing_pending [of "set_height h m" H ed]
  by blast

theorem set_height_then_get_witness:
  "height (set_height 300 (example_manager (Some 200))) = Num 300
   \<and> newHeight (set_height 300 (example_manager (Some 200))) = None
   \<and> newHeight (set_height 250 (example_manager (Some 200))) = Some 250
   \<and> saveHeight (example_host no_front_matter) (set_height 300 (example_manager (Some 200)), ''# a'')
       = (None, example_manager None, ''# a'')"
  using set_height_then_get [of 300 "example_manager (Some 200)" "example_host no_front_matter" "''# a''"]
    set_height_then_get [of 250 "example_manager (Some 200)" "example_host no_front_matter" "''# a''"]
  by (simp add: example_manager_def js_get_def set_height_def)


section \<open>Properties of the code-block renderer\<close>

lemma perform_rootNode: "rootNode (perform G hl c r) = rootNode r"
  by (cases c) (simp_all add: updateGlobalSettings_def updateFileSettings_def render_rootNode)

lemma perform_setData:
  "\<exists>opts. setData_calls (perform G hl c r) = setData_calls r @ [(rootNode r, opts)]"
  by (cases c) (simp_all add: updateGlobalSettings_def updateFileSettings_def render_setData)

lemma perform_all_roots:
  "\<forall>d \<in> set (setData_calls r). fst d = rootNode r \<Longrightarrow>
   \<forall>d \<in> set (setData_calls (perform_all G hl cs r)). fst d = rootNode r"
proof (induction cs arbitrary: r)
  case Nil
  then show ?case by simp
next
  case (Cons c cs)
  obtain opts where step: "setData_calls (perform G hl c r) = setData_calls r @ [(rootNode r, opts)]"
    using perform_setData [of G hl c r] by auto
  with Cons.prems have "\<forall>d \<in> set (setData_calls (perform G hl c r)). fst d = rootNode (perform G hl c r)"
    by (simp add: perform_rootNode)
  then have "\<forall>d \<in> set (setData_calls (perform_all G hl cs (perform G hl c r))).
      fst d = rootNode (perform G hl c r)"
    by (rule Cons.IH)
  then show ?case
    by (simp add: perform_rootNode)
qed

lemma CodeBlockRenderer_root:
  "rootNode (snd (CodeBlockRenderer RM G hl md parent g f)) = fst (RM md)
   \<and> setData_calls (snd (CodeBlockRenderer RM G hl md parent g f))
       = [(fst (RM md), G (merged (manager (snd (CodeBlockRenderer RM G hl md parent g f)))))]"
  by (cases "RM md") (simp add: CodeBlockRenderer_def render_rootNode render_setData render_manager)

lemma render_classList_Bool:
  "parentClassList r = Some cl \<Longrightarrow> js_get (merged (manager r)) ''highlight'' = Bool b \<Longrightarrow>
   \<exists>cl'. parentClassList (snd (render G hl r)) = Some cl' \<and> (hl \<in> cl' \<longleftrightarrow> b)"
  by (auto simp: render_def Let_def)

text \<open>
  Claim C5, amended. A call of \<^verbatim>\<open>render\<close> hands the markmap the renderer's root node
  together with the options derived from the merged settings of that moment. When the
  container has a parent element the call does not throw, and afterwards the parent's
  class list holds the highlight class exactly when \<^verbatim>\<open>merged.highlight\<close> is truthy;
  when \<^verbatim>\<open>merged.highlight\<close> is a boolean, exactly when it is true. The other classes
  are as before. The root node is parsed once: whatever calls follow the constructor,
  every root node handed to the markmap is the one \<^verbatim>\<open>readMarkdown\<close> returned for the
  code block's Markdown.
\<close>

theorem render_sets_data_and_highlight:
  "setData_calls (snd (render G hl r)) = setData_calls r @ [(rootNode r, G (merged (manager r)))]
   \<and> rootNode (snd (render G hl r)) = rootNode r
   \<and> (\<forall>cl. parentClassList r = Some cl \<longrightarrow>
         fst (render G hl r) = None
         \<and> (\<exists>cl'. parentClassList (snd (render G hl r)) = Some cl'
               \<and> (hl \<in> cl' \<longleftrightarrow> truthy (js_get (merged (manager r)) ''highlight''))
               \<and> cl' - {hl} = cl - {hl}))
   \<and> (\<forall>cl b. parentClassList r = Some cl \<and> js_get (merged (manager r)) ''highlight'' = Bool b \<longrightarrow>
         (\<exists>cl'. parentClassList (snd (render G hl r)) = Some cl' \<and> (hl \<in> cl' \<longleftrightarrow> b)))
   \<and> (\<forall>d \<in> set (setData_calls
                    (perform_all G hl cs (snd (CodeBlockRenderer RM G hl md parent g f)))).
         fst d = fst (RM md))"
proof -
  let ?r0 = "snd (CodeBlockRenderer RM G hl md parent g f)"
  have "\<forall>d \<in> set (setData_calls ?r0). fst d = rootNode ?r0"
    using CodeBlockRenderer_root [of RM G hl md parent g f] by simp
  then have "\<forall>d \<in> set (setData_calls (perform_all G hl cs ?r0)). fst d = rootNode ?r0"
    by (rule perform_all_roots)
  then have roots: "\<forall>d \<in> set (setData_calls (perform_all G hl cs ?r0)). fst d = fst (RM md)"
    using CodeBlockRenderer_root [of RM G hl md parent g f] by simp
  have classes: "\<forall>cl. parentClassList r = Some cl \<longrightarrow>
         fst (render G hl r) = None
         \<and> (\<exists>cl'. parentClassList (snd (render G hl r)) = Some cl'
               \<and> (hl \<in> cl' \<longleftrightarrow> truthy (js_get (merged (manager r)) ''highlight''))
               \<and> cl' - {hl} = cl - {hl})"
    using render_classList [of r _ G hl] by blast
  have booleans: "\<forall>cl b. parentClassList r = Some cl
         \<and> js_get (merged (manager r)) ''highlight'' = Bool b \<longrightarrow>
         (\<exists>cl'. parentClassList (snd (render G hl r)) = Some cl' \<and> (hl \<in> cl' \<longleftrightarrow> b))"
    using render_classList_Bool [of r _ _ G hl] by blast
  from classes booleans roots show ?thesis
    using render_setData [of G hl r] render_rootNode [of G hl r] by blast
qed

theorem render_sets_data_and_highlight_witness:
  "setData_calls (snd (render id ''markmap-highlight'' example_renderer))
     = [(''# root'', merged (example_manager None))]
   \<and> fst (render id ''markmap-highlight'' example_renderer) = None
   \<and> merged (example_manager None) ''highlight'' = Some (Bool True)
   \<and> parentClassList (snd (render id ''markmap-highlight'' example_renderer))
       = Some {''markmap-highlight'', ''block-language-markmap''}
   \<and> map fst (setData_calls (perform_all id ''markmap-highlight'' [Render, UpdateFileSettings Map.empty]
        (snd (CodeBlockRenderer example_readMarkdown id ''markmap-highlight'' ''# root''
           (Some {}) Map.empty Map.empty))))
       = [''# root'', ''# root'', ''# root'']"
  using render_sets_data_and_highlight
    [of id "''markmap-highlight''" example_renderer "[Render, UpdateFileSettings Map.empty]"
      example_readMarkdown "''# root''" "Some {}" Map.empty Map.empty]
  by (simp add: example_renderer_def example_manager_def example_readMarkdown_def render_def
      CodeBlockRenderer_def updateFileSettings_def set_file_def merged_def js_get_def height_def
      coalesce_def nullish_def Let_def)

text \<open>
  Claim C5 as it is stated fails where \<^verbatim>\<open>merged.highlight\<close> is the string \<^verbatim>\<open>no\<close>: the
  value is not \<^verbatim>\<open>true\<close>, yet the conditional of \<^verbatim>\<open>render\<close> takes it as truthy and
  the parent's class list, empty before the call, holds the highlight class after it.
\<close>

theorem render_highlights_truthy_string:
  "js_get (merged (manager highlight_no_renderer)) ''highlight'' = Str ''no''
   \<and> parentClassList highlight_no_renderer = Some {}
   \<and> parentClassList (snd (render id ''markmap-highlight'' highlight_no_renderer))
       = Some {''markmap-highlight''}"
  by (simp add: highlight_no_renderer_def highlight_no_def render_def merged_def js_get_def
      Let_def)

text \<open>
  Claim C7. \<^verbatim>\<open>updateGlobalSettings\<close> replaces the global layer and
  \<^verbatim>\<open>updateFileSettings\<close> the file layer; in each case the two other layers and the
  pending height are as before, and the markmap is handed data exactly once more, with
  the options of the settings merged after the replacement.
\<close>

theorem update_settings_frame:
  "globalSettings (settings (manager (snd (updateGlobalSettings G hl s r)))) = s
   \<and> fileSettings (settings (manager (snd (updateGlobalSettings G hl s r))))
       = fileSettings (settings (manager r))
   \<and> codeBlockSettings (settings (manager (snd (updateGlobalSettings G hl s r))))
       = codeBlockSettings (settings (manager r))
   \<and> newHeight (manager (snd (updateGlobalSettings G hl s r))) = newHeight (manager r)
   \<and> setData_calls (snd (updateGlobalSettings G hl s r))
       = setData_calls r @ [(rootNode r, G (merged (set_global s (manager r))))]
   \<and> fileSettings (settings (manager (snd (updateFileSettings G hl s r)))) = s
   \<and> globalSettings (settings (manager (snd (updateFileSettings G hl s r))))
       = globalSettings (settings (manager r))
   \<and> codeBlockSettings (settings (manager (snd (updateFileSettings G hl s r))))
       = codeBlockSettings (settings (manager r))
   \<and> newHeight (manager (snd (updateFileSettings G hl s r))) = newHeight (manager r)
   \<and> setData_calls (snd (updateFileSettings G hl s r))
       = setData_calls r @ [(rootNode r, G (merged (set_file s (manager r))))]"
proof -
  have mg: "manager (snd (updateGlobalSettings G hl s r)) = set_global s (manager r)"
    by (simp add: updateGlobalSettings_def render_manager)
  have mf: "manager (snd (updateFileSettings G hl s r)) = set_file s (manager r)"
    by (simp add: updateFileSettings_def render_manager)
  have "setData_calls (snd (updateGlobalSettings G hl s r))
      = setData_calls r @ [(rootNode r, G (merged (set_global s (manager r))))]"
    by (simp add: updateGlobalSettings_def render_setData)
  moreover have "setData_calls (snd (updateFileSettings G hl s r))
      = setData_calls r @ [(rootNode r, G (merged (set_file s (manager r))))]"
    by (simp add: updateFileSettings_def render_setData)
  ultimately show ?thesis
    by (simp add: mg mf set_global_def set_file_def)
qed

theorem update_settings_frame_witness:
  "globalSettings (settings (manager (snd (updateGlobalSettings id ''markmap-highlight''
       [''highlight'' \<mapsto> Bool True] example_renderer)))) ''highlight'' = Some (Bool True)
   \<and> length (setData_calls (snd (updateGlobalSettings id ''markmap-highlight''
       [''highlight'' \<mapsto> Bool True] example_renderer))) = 1
   \<and> length (setData_calls (snd (updateFileSettings id ''markmap-highlight''
       Map.empty example_renderer))) = 1
   \<and> parentClassList (snd (updateFileSettings id ''markmap-highlight'' Map.empty example_renderer))
       = Some {''block-language-markmap''}"
  using update_settings_frame [of id "''markmap-highlight''" "[''highlight'' \<mapsto> Bool True]" example_renderer]
    update_settings_frame [of id "''markmap-highlight''" Map.empty example_renderer]
  by (simp add: example_renderer_def example_manager_def updateFileSettings_def render_def
      set_file_def merged_def js_get_def Let_def)


section \<open>Properties of the check of the active leaf\<close>

lemma readMarkDown_calls: "update_calls (snd (readMarkDown a v)) = update_calls v"
  by (simp add: readMarkDown_def split: option.splits)














section \<open>Properties of the listeners\<close>

lemma workspace_on_each_spec:
  "workspace_on_each names w =
     ([next_ref w ..< next_ref w + length names],
      w\<lparr>workspace := workspace w @ zip [next_ref w ..< next_ref w + length names] names,
        next_ref := next_ref w + length names\<rparr>)"
proof (induction names arbitrary: w)
  case Nil
  then show ?case by simp
next
  case (Cons name names)
  have "[next_ref w ..< next_ref w + length (name # names)]
      = next_ref w # [Suc (next_ref w) ..< Suc (next_ref w) + length names]"
    by (subst upt_rec) simp
  then show ?case
    by (simp add: Cons.IH workspace_on_def)
qed

lemma forEach_offref_spec:
  "forEach_offref refs w = w\<lparr>workspace := filter (\<lambda>l. fst l \<notin> set refs) (workspace w)\<rparr>"
  by (induction refs arbitrary: w) (simp_all add: workspace_offref_def conj_commute)

lemma setListenersUp_spec:
  "setListenersUp w =
     w\<lparr>workspace := workspace w @ zip [next_ref w ..< next_ref w + 10] workspace_events,
       leaf := leaf w @ [(next_ref w + 10, ''group-change'')],
       next_ref := next_ref w + 11,
       listeners := [next_ref w ..< next_ref w + 11]\<rparr>"
proof -
  have len: "length workspace_events = 10"
    by (simp add: workspace_events_def)
  have "[next_ref w ..< next_ref w + 11] = [next_ref w ..< next_ref w + 10] @ [next_ref w + 10]"
    using upt_Suc_append [of "next_ref w" "next_ref w + 10"] by (simp add: numeral_eq_Suc)
  then show ?thesis
    by (simp add: setListenersUp_def workspace_on_each_spec len leaf_on_def)
qed

text \<open>
  Whatever other listeners the workspace and the leaf have: the eleven references made
  by \<^verbatim>\<open>setListenersUp\<close> are the view's array, \<^verbatim>\<open>onClose\<close> leaves the workspace with
  the listeners it had before \<^verbatim>\<open>setListenersUp\<close>, and the leaf keeps the listener of
  \<^verbatim>\<open>group-change\<close>.
\<close>

lemma onClose_setListenersUp:
  assumes "\<forall>l \<in> set (workspace w). fst l < next_ref w"
  shows "workspace (onClose (setListenersUp w)) = workspace w"
    and "leaf (onClose (setListenersUp w)) = leaf w @ [(next_ref w + 10, ''group-change'')]"
    and "listeners (setListenersUp w) = [next_ref w ..< next_ref w + 11]"
proof -
  define refs where "refs = [next_ref w ..< next_ref w + 11]"
  define added where "added = zip [next_ref w ..< next_ref w + 10] workspace_events"
  have up: "setListenersUp w =
      w\<lparr>workspace := workspace w @ added,
        leaf := leaf w @ [(next_ref w + 10, ''group-change'')],
        next_ref := next_ref w + 11, listeners := refs\<rparr>"
    by (simp add: setListenersUp_spec refs_def added_def)
  have old: "filter (\<lambda>l. fst l \<notin> set refs) (workspace w) = workspace w"
    using assms by (auto simp: filter_id_conv refs_def)
  have new: "filter (\<lambda>l. fst l \<notin> set refs) added = []"
    by (auto simp: filter_empty_conv refs_def added_def dest!: set_zip_leftD)
  show "workspace (onClose (setListenersUp w)) = workspace w"
    by (simp add: onClose_def forEach_offref_spec up old new)
  show "leaf (onClose (setListenersUp w)) = leaf w @ [(next_ref w + 10, ''group-change'')]"
    by (simp add: onClose_def forEach_offref_spec up)
  show "listeners (setListenersUp w) = [next_ref w ..< next_ref w + 11]"
    by (simp add: up refs_def)
qed

text \<open>
  Claim C6, on a workspace and a leaf without other listeners. \<^verbatim>\<open>setListenersUp\<close>
  stores eleven references, the ten of the workspace's listeners and the one of the
  leaf's \<^verbatim>\<open>group-change\<close> listener. \<^verbatim>\<open>onClose\<close> hands each of them to the
  workspace's \<^verbatim>\<open>offref\<close>: the workspace has no listener left, and the listener of
  \<^verbatim>\<open>group-change\<close> is still attached to the leaf.
\<close>

theorem onClose_leaves_group_change:
  "onClose (setListenersUp fresh_wiring) =
     \<lparr>workspace = [], leaf = [(10, ''group-change'')], next_ref = 11,
      listeners = [0, 1, 2, 3, 4, 5, 6, 7, 8, 9, 10]\<rparr>"
  by (simp add: onClose_def setListenersUp_def workspace_events_def workspace_on_def leaf_on_def
      workspace_offref_def fresh_wiring_def)


section \<open>Properties of the debounced update\<close>

lemma advance_idle: "agenda s = [] \<Longrightarrow> advance T limit s = s"
  by (simp add: advance.simps)

lemma advance_not_due:
  "agenda s = [(due, k)] \<Longrightarrow> now < due \<Longrightarrow> advance T (Some now) s = s"
  by (simp add: advance.simps)

lemma advance_fire_last:
  assumes "agenda s = [(due, Fire i c)]" and "c \<noteq> []" and "\<not> update_fails T c"
  shows "advance T None s = s\<lparr>agenda := [], updates := updates s @ [(due, c)], lastTimeout := None\<rparr>"
proof -
  let ?s1 = "run_task T (due, Fire i c) (s\<lparr>agenda := remove1 (due, Fire i c) (agenda s)\<rparr>)"
  from assms have s1: "?s1 = s\<lparr>agenda := [], updates := updates s @ [(due, c)], lastTimeout := None\<rparr>"
    by (simp add: Let_def)
  from assms have "advance T None s = advance T None ?s1"
    by (subst advance.simps) simp
  also have "\<dots> = ?s1"
    by (rule advance_idle) (subst s1, simp)
  finally show ?thesis
    by (simp only: s1)
qed

lemma quick_preview_replaces:
  assumes "agenda s = [(due, Fire i c)]" and "lastTimeout s = Some i" and "0 < i"
  shows "quick_preview now c' s =
     s\<lparr>agenda := [(now + 300, Fire (nextTimer s) c')], lastTimeout := Some (nextTimer s),
       nextTimer := Suc (nextTimer s)\<rparr>"
  using assms by (simp add: quick_preview_def clearTimeout_def)

lemma run_burst:
  assumes "agenda s = [(t + 300, Fire i c)]" and "lastTimeout s = Some i" and "0 < i"
    and "0 < nextTimer s" and "burst ((t, c) # es)"
    and "\<forall>e \<in> set ((t, c) # es). snd e \<noteq> [] \<and> \<not> update_fails T (snd e)"
  shows "updates (run T es s)
     = updates s @ [(fst (last ((t, c) # es)) + 300, snd (last ((t, c) # es)))]"
  using assms
proof (induction es arbitrary: s t i c)
  case Nil
  then show ?case
    by (simp add: advance_fire_last)
next
  case (Cons e es)
  obtain t' c' where e: "e = (t', c')"
    by (cases e)
  from Cons.prems e have late: "t' < t + 300"
    by simp
  with Cons.prems have idle: "advance T (Some t') s = s"
    by (simp add: advance_not_due)
  let ?s' = "quick_preview t' c' s"
  from Cons.prems have s': "?s' =
      s\<lparr>agenda := [(t' + 300, Fire (nextTimer s) c')], lastTimeout := Some (nextTimer s),
        nextTimer := Suc (nextTimer s)\<rparr>"
    by (simp add: quick_preview_replaces)
  have "updates (run T es ?s')
      = updates ?s' @ [(fst (last ((t', c') # es)) + 300, snd (last ((t', c') # es)))]"
  proof (rule Cons.IH)
    show "agenda ?s' = [(t' + 300, Fire (nextTimer s) c')]"
      by (simp add: s')
    show "lastTimeout ?s' = Some (nextTimer s)"
      by (simp add: s')
    show "0 < nextTimer s"
      by (rule Cons.prems)
    show "0 < nextTimer ?s'"
      by (simp add: s')
    show "burst ((t', c') # es)"
      using Cons.prems e by simp
    show "\<forall>e \<in> set ((t', c') # es). snd e \<noteq> [] \<and> \<not> update_fails T (snd e)"
      using Cons.prems e by simp
  qed
  with e idle show ?case
    by (simp add: s')
qed

text \<open>
  Where the file read plays no part the debounce works: after a burst of events whose
  contents are not empty and whose updates are not rejected, \<^verbatim>\<open>update\<close> has been
  called once, 300 ms after the last event and with its content.
\<close>

lemma burst_single_update:
  assumes "es \<noteq> []" and "burst es"
    and "\<forall>e \<in> set es. snd e \<noteq> [] \<and> \<not> update_fails T (snd e)"
  shows "updates (run T es initial) = [(fst (last es) + 300, snd (last es))]"
proof (cases es)
  case Nil
  with assms show ?thesis by simp
next
  case (Cons e rest)
  obtain t c where e: "e = (t, c)"
    by (cases e)
  let ?s = "quick_preview t c initial"
  have s: "?s = \<lparr>lastTimeout = Some 1, agenda = [(t + 300, Fire 1 c)], nextTimer = 2, updates = []\<rparr>"
    by (simp add: quick_preview_def initial_def)
  have "updates (run T rest ?s)
      = updates ?s @ [(fst (last ((t, c) # rest)) + 300, snd (last ((t, c) # rest)))]"
  proof (rule run_burst)
    show "agenda ?s = [(t + 300, Fire 1 c)]"
      by (simp add: s)
    show "lastTimeout ?s = Some 1"
      by (simp add: s)
    show "(0::nat) < 1"
      by simp
    show "0 < nextTimer ?s"
      by (simp add: s)
    show "burst ((t, c) # rest)"
      using assms Cons e by simp
    show "\<forall>e \<in> set ((t, c) # rest). snd e \<noteq> [] \<and> \<not> update_fails T (snd e)"
      using assms Cons e by simp
  qed
  moreover have "advance T (Some t) initial = initial"
    by (rule advance_idle) (simp add: initial_def)
  ultimately show ?thesis
    using Cons e by (simp add: s)
qed

text \<open>
  Claim C3, at three quick-preview events: the empty content at 0 ms, \<^verbatim>\<open>b\<close> at 305 ms
  and \<^verbatim>\<open>bc\<close> at 400 ms, with a file read that takes 10 ms. The timer of the first
  event fires at 300 ms and its \<^verbatim>\<open>update\<close> awaits the read; the second event arrives
  meanwhile and stores its timer in \<^verbatim>\<open>lastTimeout\<close>; the read settles at 310 ms and
  the callback sets \<^verbatim>\<open>lastTimeout\<close> to \<^verbatim>\<open>undefined\<close>; the third event, 95 ms after
  the second, therefore cancels nothing. \<^verbatim>\<open>update\<close> is called for \<^verbatim>\<open>b\<close> at 605 ms
  and for \<^verbatim>\<open>bc\<close> at 700 ms: twice for the burst of the second and the third event.
\<close>

theorem quick_preview_race:
  "updates (run \<lparr>read_latency = 10, update_fails = never\<rparr>
      [(0, []), (305, ''b''), (400, ''bc'')] initial)
   = [(300, []), (605, ''b''), (700, ''bc'')]"
  by (simp add: advance.simps initial_def quick_preview_def clearTimeout_def never_def)


section \<open>Properties of the htmlescape plugin\<close>

lemma replace_absent: "c \<notin> set s \<Longrightarrow> replace c r s = s"
  by (induction s) auto

lemma replace_first_occurrence: "c \<notin> set a \<Longrightarrow> replace c r (a @ c # b) = a @ r @ b"
  by (induction a) auto

lemma first_brackets_done: "first_brackets True True s = s"
  by (induction s) auto

lemma first_brackets_gt: "first_brackets True False s = replace CHR ''>'' ''&gt;'' s"
  by (induction s) (auto simp: first_brackets_done)

lemma first_brackets_lt: "first_brackets False True s = replace CHR ''<'' ''&lt;'' s"
  by (induction s) (auto simp: first_brackets_done)

lemma replace_both:
  "replace CHR ''>'' ''&gt;'' (replace CHR ''<'' ''&lt;'' s) = first_brackets False False s"
  by (induction s) (auto simp: first_brackets_gt first_brackets_lt)

lemma escapeAll_type: "type (escapeAll t) = type t"
  by (cases t) simp

lemma escapeAll_other: "other (escapeAll t) = other t"
  by (cases t) simp

lemma escapeAll_children: "children (escapeAll t) = map_option (map escapeAll) (children t)"
  by (cases t) (simp split: option.splits)

lemma escapeAll_content_kept:
  "type t \<noteq> ''htmltag'' \<or> content t = None \<or> content t = Some [] \<Longrightarrow>
   content (escapeAll t) = content t"
  by (cases t) (auto split: option.splits)

lemma escapeAll_content_htmltag:
  "type t = ''htmltag'' \<Longrightarrow> content t = Some s \<Longrightarrow> s \<noteq> [] \<Longrightarrow>
   content (escapeAll t) = Some (first_brackets False False s)"
  by (cases t) (simp add: replace_both)

lemma escapeAll_no_htmltag: "\<not> has_htmltag t \<Longrightarrow> escapeAll t = t"
proof (induction t rule: escapeAll.induct)
  case (1 ty c kids x)
  have same: "(case kids of None \<Rightarrow> None | Some ts \<Rightarrow> Some (map escapeAll ts)) = kids"
  proof (cases kids)
    case None
    then show ?thesis by simp
  next
    case (Some ts)
    with "1.prems" have "\<forall>u \<in> set ts. \<not> has_htmltag u"
      by (auto simp: list_ex_iff)
    with Some "1.IH" have "map escapeAll ts = ts"
      by (simp add: map_idI)
    with Some show ?thesis by simp
  qed
  from "1.prems" have "(case c of None \<Rightarrow> None
        | Some s \<Rightarrow>
            if ty = ''htmltag'' \<and> s \<noteq> []
            then Some (replace CHR ''>'' ''&gt;'' (replace CHR ''<'' ''&lt;'' s))
            else Some s) = c"
    by (auto split: option.splits)
  with same show ?case by simp
qed

text \<open>
  Claim C8. In a token of type \<^verbatim>\<open>htmltag\<close> with a non-empty content, \<^verbatim>\<open>escapeAll\<close>
  replaces the first \<^verbatim>\<open><\<close> by \<^verbatim>\<open>&lt;\<close> and the first \<^verbatim>\<open>>\<close> by \<^verbatim>\<open>&gt;\<close> and keeps
  every later angle bracket: the text before the first \<^verbatim>\<open><\<close> and the text after it
  are the original ones when they hold no \<^verbatim>\<open>>\<close>, and so for \<^verbatim>\<open>>\<close>. The content of
  any other token, the type and the remaining fields of every token are kept; the
  children are the escaped children, and a tree without such an \<^verbatim>\<open>htmltag\<close> token is
  returned as it is.
\<close>

theorem escapeAll_first_occurrence_only:
  "type (escapeAll t) = type t \<and> other (escapeAll t) = other t
   \<and> children (escapeAll t) = map_option (map escapeAll) (children t)
   \<and> (type t \<noteq> ''htmltag'' \<or> content t = None \<or> content t = Some [] \<longrightarrow>
        content (escapeAll t) = content t)
   \<and> (\<forall>s. type t = ''htmltag'' \<and> content t = Some s \<and> s \<noteq> [] \<longrightarrow>
        content (escapeAll t) = Some (first_brackets False False s))
   \<and> (\<forall>a b. CHR ''<'' \<notin> set a \<and> CHR ''>'' \<notin> set a \<and> CHR ''>'' \<notin> set b \<longrightarrow>
        first_brackets False False (a @ CHR ''<'' # b) = a @ ''&lt;'' @ b)
   \<and> (\<forall>a b. CHR ''<'' \<notin> set a \<and> CHR ''>'' \<notin> set a \<and> CHR ''<'' \<notin> set b \<longrightarrow>
        first_brackets False False (a @ CHR ''>'' # b) = a @ ''&gt;'' @ b)
   \<and> (\<not> has_htmltag t \<longrightarrow> escapeAll t = t)"
proof -
  have lt: "first_brackets False False (a @ CHR ''<'' # b) = a @ ''&lt;'' @ b"
    if "CHR ''<'' \<notin> set a" "CHR ''>'' \<notin> set a" "CHR ''>'' \<notin> set b" for a b
  proof -
    have inner: "replace CHR ''<'' ''&lt;'' (a @ CHR ''<'' # b) = a @ ''&lt;'' @ b"
      using that by (simp add: replace_first_occurrence)
    have none: "CHR ''>'' \<notin> set (a @ ''&lt;'' @ b)"
      using that by simp
    have "first_brackets False False (a @ CHR ''<'' # b)
        = replace CHR ''>'' ''&gt;'' (replace CHR ''<'' ''&lt;'' (a @ CHR ''<'' # b))"
      by (rule replace_both [symmetric])
    also have "\<dots> = replace CHR ''>'' ''&gt;'' (a @ ''&lt;'' @ b)"
      by (simp only: inner)
    also have "\<dots> = a @ ''&lt;'' @ b"
      using none by (rule replace_absent)
    finally show ?thesis .
  qed
  have gt: "first_brackets False False (a @ CHR ''>'' # b) = a @ ''&gt;'' @ b"
    if "CHR ''<'' \<notin> set a" "CHR ''>'' \<notin> set a" "CHR ''<'' \<notin> set b" for a b
  proof -
    have "CHR ''<'' \<notin> set (a @ CHR ''>'' # b)"
      using that by simp
    then have inner: "replace CHR ''<'' ''&lt;'' (a @ CHR ''>'' # b) = a @ CHR ''>'' # b"
      by (rule replace_absent)
    have "first_brackets False False (a @ CHR ''>'' # b)
        = replace CHR ''>'' ''&gt;'' (replace CHR ''<'' ''&lt;'' (a @ CHR ''>'' # b))"
      by (rule replace_both [symmetric])
    also have "\<dots> = replace CHR ''>'' ''&gt;'' (a @ CHR ''>'' # b)"
      by (simp only: inner)
    also have "\<dots> = a @ ''&gt;'' @ b"
      using that(2) by (rule replace_first_occurrence)
    finally show ?thesis .
  qed
  show ?thesis
    using escapeAll_type [of t] escapeAll_other [of t] escapeAll_children [of t]
      escapeAll_content_kept [of t] escapeAll_content_htmltag [of t]
      escapeAll_no_htmltag [of t] lt gt
    by blast
qed

theorem escapeAll_first_occurrence_only_witness:
  "escapeAll (Token ''htmltag'' (Some ''<a><b>'')
      (Some [Token ''text'' (Some ''x<y'') None (), Token ''htmltag'' (Some ''</a>'') None ()]) ())
   = Token ''htmltag'' (Some ''&lt;a&gt;<b>'')
      (Some [Token ''text'' (Some ''x<y'') None (), Token ''htmltag'' (Some ''&lt;/a&gt;'') None ()]) ()
   \<and> first_brackets False False ''<a><b>'' = ''&lt;a&gt;<b>''
   \<and> first_brackets False False (''x'' @ CHR ''<'' # ''y'') = ''x'' @ ''&lt;'' @ ''y''
   \<and> first_brackets False False (''x'' @ CHR ''>'' # ''y'') = ''x'' @ ''&gt;'' @ ''y''
   \<and> escapeAll (Token ''text'' (Some ''x<y'') None ()) = Token ''text'' (Some ''x<y'') None ()"
  using escapeAll_first_occurrence_only [of "Token ''text'' (Some ''x<y'') None ()"]
    escapeAll_first_occurrence_only
      [of "Token ''htmltag'' (Some ''<a><b>'')
        (Some [Token ''text'' (Some ''x<y'') None (), Token ''htmltag'' (Some ''</a>'') None ()]) ()"]
  by simp



section \<open>Properties of the colouring\<close>

lemma rem_nonneg: "0 \<le> d \<Longrightarrow> 0 < n \<Longrightarrow> rem d n = d mod n"
  by (cases "d = 0") (simp_all add: rem_def)

lemma at_index_mod:
  assumes "0 \<le> d" and "cs \<noteq> []"
  shows "at_index cs (rem d (int (length cs))) = Some (cs ! (nat d mod length cs))"
proof -
  from assms have n: "0 < int (length cs)" by simp
  with assms have r: "rem d (int (length cs)) = d mod int (length cs)"
    by (simp add: rem_nonneg)
  from assms have "d mod int (length cs) = int (nat d mod length cs)"
    by (simp add: zmod_int)
  with r n show ?thesis
    by (simp add: at_index_def)
qed

text \<open>
  Claim C10. With \<^verbatim>\<open>onlyUseDefaultColor\<close> set, the colour function returns the default
  colour at every depth. Otherwise, with a non-empty colour list in the front-matter, a
  node at depth \<open>d\<close> (a tree depth, so \<open>0 \<le> d\<close>) gets the list's entry at \<open>d\<close> modulo
  the list's length; without one it gets \<^verbatim>\<open>color1\<close>, \<^verbatim>\<open>color2\<close>, \<^verbatim>\<open>color3\<close> at the
  depths 0, 1, 2 and the default colour at every greater depth.
\<close>

theorem applyColor_by_depth:
  "(onlyUseDefaultColor st \<longrightarrow> applyColor st fm d = Some (defaultColor st))
   \<and> (\<not> onlyUseDefaultColor st \<and> fm = Some cs \<and> cs \<noteq> [] \<and> 0 \<le> d \<longrightarrow>
        applyColor st fm d = Some (cs ! (nat d mod length cs)))
   \<and> (\<not> onlyUseDefaultColor st \<and> (fm = None \<or> fm = Some []) \<longrightarrow>
        applyColor st fm 0 = Some (color1 st) \<and> applyColor st fm 1 = Some (color2 st)
        \<and> applyColor st fm 2 = Some (color3 st)
        \<and> (2 < d \<longrightarrow> applyColor st fm d = Some (defaultColor st)))"
proof (intro conjI impI)
  assume "onlyUseDefaultColor st"
  then show "applyColor st fm d = Some (defaultColor st)"
    by (simp add: applyColor_def)
next
  assume a: "\<not> onlyUseDefaultColor st \<and> fm = Some cs \<and> cs \<noteq> [] \<and> 0 \<le> d"
  then have "applyColor st fm d = at_index cs (rem d (int (length cs)))"
    by (simp add: applyColor_def has_length_def)
  with a show "applyColor st fm d = Some (cs ! (nat d mod length cs))"
    by (simp add: at_index_mod)
next
  assume a: "\<not> onlyUseDefaultColor st \<and> (fm = None \<or> fm = Some [])"
  then show "applyColor st fm 0 = Some (color1 st)"
    by (auto simp: applyColor_def has_length_def at_index_def)
  from a show "applyColor st fm 1 = Some (color2 st)"
    by (auto simp: applyColor_def has_length_def at_index_def)
  from a show "applyColor st fm 2 = Some (color3 st)"
    by (auto simp: applyColor_def has_length_def at_index_def)
  assume "2 < d"
  with a show "applyColor st fm d = Some (defaultColor st)"
    by (auto simp: applyColor_def has_length_def)
qed

theorem applyColor_by_depth_witness:
  "applyColor \<lparr>onlyUseDefaultColor = True, defaultColor = ''grey'', color1 = ''red'',
      color2 = ''green'', color3 = ''blue''\<rparr> (Some [''a'', ''b'']) 5 = Some ''grey''
   \<and> applyColor \<lparr>onlyUseDefaultColor = False, defaultColor = ''grey'', color1 = ''red'',
      color2 = ''green'', color3 = ''blue''\<rparr> (Some [''a'', ''b'']) 5 = Some ''b''
   \<and> applyColor \<lparr>onlyUseDefaultColor = False, defaultColor = ''grey'', color1 = ''red'',
      color2 = ''green'', color3 = ''blue''\<rparr> None 2 = Some ''blue''
   \<and> applyColor \<lparr>onlyUseDefaultColor = False, defaultColor = ''grey'', color1 = ''red'',
      color2 = ''green'', color3 = ''blue''\<rparr> None 3 = Some ''grey''"
  using
    applyColor_by_depth [of "\<lparr>onlyUseDefaultColor = True, defaultColor = ''grey'',
      color1 = ''red'', color2 = ''green'', color3 = ''blue''\<rparr>" "Some [''a'', ''b'']" 5 "[''a'', ''b'']"]
    applyColor_by_depth [of "\<lparr>onlyUseDefaultColor = False, defaultColor = ''grey'',
      color1 = ''red'', color2 = ''green'', color3 = ''blue''\<rparr>" "Some [''a'', ''b'']" 5 "[''a'', ''b'']"]
    applyColor_by_depth [of "\<lparr>onlyUseDefaultColor = False, defaultColor = ''grey'',
      color1 = ''red'', color2 = ''green'', color3 = ''blue''\<rparr>" None 3 "[]"]
  by (simp add: numeral_2_eq_2 [symmetric])


end
